theory Spec2Isabelle
  imports Complex_Main
begin

section \<open>JavaScript numbers\<close>

text \<open>
  A JavaScript number is a finite value, one of the two infinities, or NaN; the
  sign of zero is not modelled (every zero is \<open>+0\<close>).

  What every engine does alike is written out: how NaN and the infinities arise
  and propagate (division by zero, the square root of a negative number), and the
  comparisons, which are exact and all false on NaN. The functions \<open>js_add\<close>,
  \<open>js_mul\<close>, \<open>js_div\<close> below give the result of an operation before it is
  rounded: on finite operands, the exact real.
\<close>

datatype jsnum = Num real | Infinity | NegInfinity | NaN

fun js_neg :: "jsnum \<Rightarrow> jsnum" where
  "js_neg (Num x) = Num (- x)"
| "js_neg Infinity = NegInfinity"
| "js_neg NegInfinity = Infinity"
| "js_neg NaN = NaN"

fun js_add :: "jsnum \<Rightarrow> jsnum \<Rightarrow> jsnum" where
  "js_add (Num x) (Num y) = Num (x + y)"
| "js_add NaN _ = NaN"
| "js_add _ NaN = NaN"
| "js_add Infinity NegInfinity = NaN"
| "js_add NegInfinity Infinity = NaN"
| "js_add Infinity _ = Infinity"
| "js_add NegInfinity _ = NegInfinity"
| "js_add (Num x) y = y"

definition js_sub :: "jsnum \<Rightarrow> jsnum \<Rightarrow> jsnum" where
  "js_sub x y = js_add x (js_neg y)"

text \<open>The sign of a product or quotient with an infinite operand.\<close>

definition signed_inf :: "real \<Rightarrow> jsnum" where
  "signed_inf s = (if 0 < s then Infinity else if s < 0 then NegInfinity else NaN)"

fun js_sign :: "jsnum \<Rightarrow> real" where
  "js_sign (Num x) = sgn x"
| "js_sign Infinity = 1"
| "js_sign NegInfinity = - 1"
| "js_sign NaN = 0"

fun js_mul :: "jsnum \<Rightarrow> jsnum \<Rightarrow> jsnum" where
  "js_mul (Num x) (Num y) = Num (x * y)"
| "js_mul NaN _ = NaN"
| "js_mul _ NaN = NaN"
| "js_mul x y = signed_inf (js_sign x * js_sign y)"

text \<open>
  Division never raises. A finite non-zero number over zero is an infinity of
  the dividend's sign, zero over zero is NaN, a finite number over an infinity
  is zero, and an infinity over an infinity is NaN.
\<close>

fun js_div :: "jsnum \<Rightarrow> jsnum \<Rightarrow> jsnum" where
  "js_div (Num x) (Num y) = (if y = 0 then signed_inf x else Num (x / y))"
| "js_div NaN _ = NaN"
| "js_div _ NaN = NaN"
| "js_div (Num x) _ = Num 0"
| "js_div Infinity (Num y) = (if y < 0 then NegInfinity else Infinity)"
| "js_div NegInfinity (Num y) = (if y < 0 then Infinity else NegInfinity)"
| "js_div _ _ = NaN"

text \<open>Comparisons: every comparison with NaN is false.\<close>

fun js_lt :: "jsnum \<Rightarrow> jsnum \<Rightarrow> bool" where
  "js_lt (Num x) (Num y) = (x < y)"
| "js_lt NaN _ = False"
| "js_lt _ NaN = False"
| "js_lt _ NegInfinity = False"
| "js_lt Infinity _ = False"
| "js_lt _ _ = True"

definition js_le :: "jsnum \<Rightarrow> jsnum \<Rightarrow> bool" where
  "js_le x y = (x \<noteq> NaN \<and> y \<noteq> NaN \<and> (js_lt x y \<or> x = y))"

definition js_gt :: "jsnum \<Rightarrow> jsnum \<Rightarrow> bool" where
  "js_gt x y = js_lt y x"


subsection \<open>The engine: rounding and the approximated functions\<close>

text \<open>
  The source does not fix what a finite result is rounded to, nor what
  \<open>Math.sin\<close>, \<open>Math.cos\<close>, \<open>Math.sqrt\<close>, \<open>Math.atan2\<close> and \<open>**\<close> return on
  finite arguments: that is the engine's binary64 arithmetic and its
  mathematical library. They are a parameter of every function below.
  \<open>rnd\<close> gives the number an exact non-zero finite result becomes (a finite
  number, zero on underflow, an infinity on overflow); the other fields give the
  library's results on finite arguments.
\<close>

record engine =
  rnd :: "real \<Rightarrow> jsnum"
  math_sin :: "real \<Rightarrow> jsnum"
  math_cos :: "real \<Rightarrow> jsnum"
  math_sqrt :: "real \<Rightarrow> jsnum"
  math_atan2 :: "real \<Rightarrow> real \<Rightarrow> jsnum"
  math_pow2 :: "real \<Rightarrow> jsnum"

text \<open>
  The number an operation returns: NaN, an infinity and an exact zero are
  returned as they are, any other finite result is rounded by the engine.
\<close>

fun fl :: "engine \<Rightarrow> jsnum \<Rightarrow> jsnum" where
  "fl E (Num x) = (if x = 0 then Num 0 else rnd E x)"
| "fl E v = v"

text \<open>The operators \<open>+\<close>, \<open>-\<close>, \<open>*\<close>, \<open>/\<close> and \<open>x ** 2\<close>.\<close>

definition num_add :: "engine \<Rightarrow> jsnum \<Rightarrow> jsnum \<Rightarrow> jsnum" where
  "num_add E x y = fl E (js_add x y)"

definition num_sub :: "engine \<Rightarrow> jsnum \<Rightarrow> jsnum \<Rightarrow> jsnum" where
  "num_sub E x y = fl E (js_sub x y)"

definition num_mul :: "engine \<Rightarrow> jsnum \<Rightarrow> jsnum \<Rightarrow> jsnum" where
  "num_mul E x y = fl E (js_mul x y)"

definition num_div :: "engine \<Rightarrow> jsnum \<Rightarrow> jsnum \<Rightarrow> jsnum" where
  "num_div E x y = fl E (js_div x y)"

fun num_pow2 :: "engine \<Rightarrow> jsnum \<Rightarrow> jsnum" where
  "num_pow2 E (Num x) = math_pow2 E x"
| "num_pow2 E NaN = NaN"
| "num_pow2 E _ = Infinity"

subsection \<open>The \<open>Math\<close> object\<close>

text \<open>
  \<open>Math.PI\<close> is the binary64 number nearest to \<open>\<pi>\<close>,
  \<open>884279719003555 / 2\<^sup>4\<^sup>8\<close>; the literal \<open>3.6\<close> is the binary64 number
  nearest to it, \<open>8106479329266893 / 2\<^sup>5\<^sup>1\<close>.
\<close>

definition PI_value :: real where
  "PI_value = 884279719003555 / 281474976710656"

definition Math_PI :: jsnum where
  "Math_PI = Num PI_value"

definition literal_3_6 :: jsnum where
  "literal_3_6 = Num (8106479329266893 / 2251799813685248)"

fun Math_sin :: "engine \<Rightarrow> jsnum \<Rightarrow> jsnum" where
  "Math_sin E (Num x) = math_sin E x"
| "Math_sin E _ = NaN"

fun Math_cos :: "engine \<Rightarrow> jsnum \<Rightarrow> jsnum" where
  "Math_cos E (Num x) = math_cos E x"
| "Math_cos E _ = NaN"

fun Math_sqrt :: "engine \<Rightarrow> jsnum \<Rightarrow> jsnum" where
  "Math_sqrt E (Num x) = (if x < 0 then NaN else math_sqrt E x)"
| "Math_sqrt E Infinity = Infinity"
| "Math_sqrt E _ = NaN"

text \<open>
  \<open>Math.atan2(y, x)\<close>: the engine's result on finite arguments, and the results
  every engine gives on the others.
\<close>

fun Math_atan2 :: "engine \<Rightarrow> jsnum \<Rightarrow> jsnum \<Rightarrow> jsnum" where
  "Math_atan2 E (Num y) (Num x) = math_atan2 E y x"
| "Math_atan2 E NaN _ = NaN"
| "Math_atan2 E _ NaN = NaN"
| "Math_atan2 E (Num y) Infinity = Num 0"
| "Math_atan2 E (Num y) NegInfinity = (if 0 \<le> y then fl E (Num pi) else fl E (Num (- pi)))"
| "Math_atan2 E Infinity (Num x) = fl E (Num (pi / 2))"
| "Math_atan2 E NegInfinity (Num x) = fl E (Num (- (pi / 2)))"
| "Math_atan2 E Infinity Infinity = fl E (Num (pi / 4))"
| "Math_atan2 E Infinity NegInfinity = fl E (Num (3 * pi / 4))"
| "Math_atan2 E NegInfinity Infinity = fl E (Num (- (pi / 4)))"
| "Math_atan2 E NegInfinity NegInfinity = fl E (Num (- (3 * pi / 4)))"

text \<open>
  \<open>Math.round\<close> is exact: the nearest integer, a tie going up
  (\<open>\<lfloor>x + 1/2\<rfloor>\<close>); the non-finite values are returned as they are.
\<close>

fun Math_round :: "jsnum \<Rightarrow> jsnum" where
  "Math_round (Num x) = Num (of_int \<lfloor>x + 1 / 2\<rfloor>)"
| "Math_round x = x"

subsection \<open>Two properties of an engine\<close>

text \<open>
  The engine of exact arithmetic rounds nothing and has the mathematical
  functions themselves. It is the engine at which the examples below are
  evaluated.
\<close>

definition atan2 :: "real \<Rightarrow> real \<Rightarrow> real" where
  "atan2 y x =
     (if 0 < x then arctan (y / x)
      else if x < 0 then (if 0 \<le> y then arctan (y / x) + pi else arctan (y / x) - pi)
      else if 0 < y then pi / 2
      else if y < 0 then - (pi / 2)
      else 0)"

definition exact :: engine where
  "exact = \<lparr>rnd = Num,
            math_sin = (\<lambda>x. Num (sin x)),
            math_cos = (\<lambda>x. Num (cos x)),
            math_sqrt = (\<lambda>x. Num (sqrt x)),
            math_atan2 = (\<lambda>y x. Num (atan2 y x)),
            math_pow2 = (\<lambda>x. Num (x\<^sup>2))\<rparr>"

text \<open>
  Rounding keeps the sign: a positive result is not rounded below zero, a
  negative one not above, and a result of magnitude at least \<open>1/1000\<close> is not
  rounded to zero. Binary64 rounding to nearest is such.
\<close>

definition keeps_sign :: "engine \<Rightarrow> bool" where
  "keeps_sign E =
     (\<forall>x. (0 < x \<longrightarrow> js_le (Num 0) (rnd E x)) \<and>
          (x < 0 \<longrightarrow> js_le (rnd E x) (Num 0)) \<and>
          (1 / 1000 \<le> \<bar>x\<bar> \<longrightarrow> rnd E x \<noteq> Num 0))"

section \<open>GeoMath: the haversine distance\<close>

text \<open>
  \<open>calculateDistance\<close> of the later \<open>LocationTracker\<close> (squares written
  \<open>** 2\<close>), and \<open>calculateDistance_v1\<close> of the earlier one (squares written as
  products). Every operation of the source is an operation of the engine.
\<close>

definition calculateDistance :: "engine \<Rightarrow> jsnum \<Rightarrow> jsnum \<Rightarrow> jsnum \<Rightarrow> jsnum \<Rightarrow> jsnum" where
  "calculateDistance E lat1 lon1 lat2 lon2 =
     (let R = Num 6371000;
          dLat = num_div E (num_mul E (num_sub E lat2 lat1) Math_PI) (Num 180);
          dLon = num_div E (num_mul E (num_sub E lon2 lon1) Math_PI) (Num 180);
          a = num_add E
                (num_pow2 E (Math_sin E (num_div E dLat (Num 2))))
                (num_mul E
                  (num_mul E (Math_cos E (num_div E (num_mul E lat1 Math_PI) (Num 180)))
                             (Math_cos E (num_div E (num_mul E lat2 Math_PI) (Num 180))))
                  (num_pow2 E (Math_sin E (num_div E dLon (Num 2)))));
          c = num_mul E (Num 2)
                (Math_atan2 E (Math_sqrt E a) (Math_sqrt E (num_sub E (Num 1) a)))
      in num_mul E R c)"

definition calculateDistance_v1 :: "engine \<Rightarrow> jsnum \<Rightarrow> jsnum \<Rightarrow> jsnum \<Rightarrow> jsnum \<Rightarrow> jsnum" where
  "calculateDistance_v1 E lat1 lon1 lat2 lon2 =
     (let R = Num 6371000;
          dLat = num_div E (num_mul E (num_sub E lat2 lat1) Math_PI) (Num 180);
          dLon = num_div E (num_mul E (num_sub E lon2 lon1) Math_PI) (Num 180);
          a = num_add E
                (num_mul E (Math_sin E (num_div E dLat (Num 2)))
                           (Math_sin E (num_div E dLat (Num 2))))
                (num_mul E
                  (num_mul E
                    (num_mul E (Math_cos E (num_div E (num_mul E lat1 Math_PI) (Num 180)))
                               (Math_cos E (num_div E (num_mul E lat2 Math_PI) (Num 180))))
                    (Math_sin E (num_div E dLon (Num 2))))
                  (Math_sin E (num_div E dLon (Num 2))));
          c = num_mul E (Num 2)
                (Math_atan2 E (Math_sqrt E a) (Math_sqrt E (num_sub E (Num 1) a)))
      in num_mul E R c)"

text \<open>
  With the engine of exact arithmetic and finite coordinates, the argument
  \<open>a\<close> of the square roots and the distance \<open>R * c\<close> are these reals.
\<close>

definition haversine :: "real \<Rightarrow> real \<Rightarrow> real \<Rightarrow> real \<Rightarrow> real" where
  "haversine lat1 lon1 lat2 lon2 =
     (sin ((lat2 - lat1) * PI_value / 180 / 2))\<^sup>2 +
     cos (lat1 * PI_value / 180) * cos (lat2 * PI_value / 180) *
       (sin ((lon2 - lon1) * PI_value / 180 / 2))\<^sup>2"

definition great_circle :: "real \<Rightarrow> real \<Rightarrow> real \<Rightarrow> real \<Rightarrow> real" where
  "great_circle lat1 lon1 lat2 lon2 =
     6371000 * (2 * atan2 (sqrt (haversine lat1 lon1 lat2 lon2))
                          (sqrt (1 - haversine lat1 lon1 lat2 lon2)))"

section \<open>Data model\<close>

text \<open>
  The objects of \<open>App.jsx\<close>. \<open>newLocation\<close> is \<open>{lat, lng}\<close>; \<open>lastPosition\<close>
  is \<open>{...newLocation, time}\<close>; a campus point is \<open>{name, type, lat, lng}\<close>
  (\<open>CampusPoint.js\<close>); \<open>nearestPoint\<close> is \<open>{...point, distance}\<close>.
  \<open>Date.now()\<close> is an integer number of milliseconds.
\<close>

record location =
  lat :: jsnum
  lng :: jsnum

record timed_location = location +
  time :: int

record point = location +
  name :: string
  type :: string

record nearest_point = point +
  distance :: jsnum

text \<open>
  The object handed to \<open>onProximityAlert\<close> is \<open>{type, name, distance}\<close>. Its
  \<open>name\<close> is either a point's name or the template literal
  \<open>SLOW DOWN! Speed: ${userSpeed.toFixed(1)} km/h (Max: ${speedLimit} km/h) near ${nearestPoint.name}\<close>,
  kept here as its three interpolated values (the rendering of numbers as text
  is not modelled).
\<close>

datatype alert_text = Plain string | SlowDown jsnum jsnum string

record alert_info =
  alert_type :: string
  alert_name :: alert_text
  alert_distance :: jsnum

record tracker_state =
  userLocation :: "location option"
  lastPosition :: "timed_location option"

section \<open>ProximityEngine\<close>

subsection \<open>The later variant: nearest point within 10 m, with the speed check\<close>

text \<open>
  The loop of \<open>checkProximityAndSpeed\<close> over \<open>points\<close>, on the pair
  \<open>(nearestPoint, minDistance)\<close>.
\<close>

fun nearest_loop ::
  "engine \<Rightarrow> jsnum \<Rightarrow> jsnum \<Rightarrow> point list \<Rightarrow> nearest_point option \<times> jsnum
     \<Rightarrow> nearest_point option \<times> jsnum"
where
  "nearest_loop E userLat userLng [] acc = acc"
| "nearest_loop E userLat userLng (point # rest) (nearestPoint, minDistance) =
     (let distance = calculateDistance E userLat userLng (lat point) (lng point)
      in if js_le distance (Num 10) \<and> js_lt distance minDistance
         then nearest_loop E userLat userLng rest
                (Some \<lparr>lat = lat point, lng = lng point, name = name point, type = type point,
                        distance = distance\<rparr>, distance)
         else nearest_loop E userLat userLng rest (nearestPoint, minDistance))"

text \<open>
  \<open>checkProximityAndSpeed\<close>; \<open>points\<close> and \<open>speedLimit\<close> are the component's
  props. The result is the sequence of calls of \<open>onProximityAlert\<close>.
\<close>

definition checkProximityAndSpeed ::
  "engine \<Rightarrow> point list \<Rightarrow> jsnum \<Rightarrow> jsnum \<Rightarrow> jsnum \<Rightarrow> jsnum \<Rightarrow> alert_info list"
where
  "checkProximityAndSpeed E points speedLimit userLat userLng userSpeed =
     (case fst (nearest_loop E userLat userLng points (None, Infinity)) of
        None \<Rightarrow> []
      | Some nearestPoint \<Rightarrow>
          if js_gt userSpeed speedLimit
          then [\<lparr>alert_type = ''Speed Alert'',
                 alert_name = SlowDown userSpeed speedLimit (name nearestPoint),
                 alert_distance = Math_round (distance nearestPoint)\<rparr>]
          else [\<lparr>alert_type = type nearestPoint,
                 alert_name = Plain (name nearestPoint),
                 alert_distance = Math_round (distance nearestPoint)\<rparr>])"

text \<open>
  The loop's \<open>distance\<close> for a point, the object \<open>{...point, distance}\<close>, and
  what holds of \<open>(nearestPoint, minDistance)\<close> once the loop has gone through
  \<open>xs\<close>: either nothing of \<open>xs\<close> is within 10 m and the pair is still
  \<open>(null, Infinity)\<close>, or the pair is the point at some index \<open>i\<close> and its
  distance, that point is within 10 m, no point within 10 m is nearer, and every
  point within 10 m before \<open>i\<close> is strictly farther.
\<close>

definition distance_to :: "engine \<Rightarrow> jsnum \<Rightarrow> jsnum \<Rightarrow> point \<Rightarrow> jsnum" where
  "distance_to E userLat userLng p = calculateDistance E userLat userLng (lat p) (lng p)"

definition with_distance :: "point \<Rightarrow> jsnum \<Rightarrow> nearest_point" where
  "with_distance p d = \<lparr>lat = lat p, lng = lng p, name = name p, type = type p, distance = d\<rparr>"

definition nearest_inv ::
  "engine \<Rightarrow> jsnum \<Rightarrow> jsnum \<Rightarrow> point list \<Rightarrow> nearest_point option \<times> jsnum \<Rightarrow> bool"
where
  "nearest_inv E userLat userLng xs acc =
     ((fst acc = None \<and> snd acc = Infinity \<and>
        (\<forall>q\<in>set xs. \<not> js_le (distance_to E userLat userLng q) (Num 10))) \<or>
      (\<exists>i<length xs.
         fst acc = Some (with_distance (xs ! i) (distance_to E userLat userLng (xs ! i))) \<and>
         snd acc = distance_to E userLat userLng (xs ! i) \<and>
         js_le (distance_to E userLat userLng (xs ! i)) (Num 10) \<and>
         (\<forall>j<length xs. js_le (distance_to E userLat userLng (xs ! j)) (Num 10) \<longrightarrow>
            js_le (distance_to E userLat userLng (xs ! i)) (distance_to E userLat userLng (xs ! j))) \<and>
         (\<forall>j<i. js_le (distance_to E userLat userLng (xs ! j)) (Num 10) \<longrightarrow>
            js_lt (distance_to E userLat userLng (xs ! i)) (distance_to E userLat userLng (xs ! j)))))"

subsection \<open>The earlier variant: first point within 100 m\<close>

fun checkProximity :: "engine \<Rightarrow> point list \<Rightarrow> jsnum \<Rightarrow> jsnum \<Rightarrow> alert_info list" where
  "checkProximity E [] userLat userLng = []"
| "checkProximity E (point # rest) userLat userLng =
     (let distance = calculateDistance_v1 E userLat userLng (lat point) (lng point)
      in if js_le distance (Num 100)
         then [\<lparr>alert_type = type point, alert_name = Plain (name point),
                 alert_distance = Math_round distance\<rparr>]
         else checkProximity E rest userLat userLng)"

section \<open>SpeedEstimator\<close>

text \<open>
  The speed computation of the \<open>watchPosition\<close> callback (\<open>let userSpeed = 0;
  if (lastPosition) { ... }\<close>); \<open>now\<close> is the value of \<open>Date.now()\<close> read for
  \<open>timeDiff\<close>. There is no test on \<open>timeDiff\<close>. \<open>Date.now()\<close> and the stored
  time are integers, and so is their difference.
\<close>

definition estimateSpeed :: "engine \<Rightarrow> timed_location option \<Rightarrow> location \<Rightarrow> int \<Rightarrow> jsnum" where
  "estimateSpeed E lastPos newLocation now =
     (case lastPos of
        None \<Rightarrow> Num 0
      | Some prev \<Rightarrow>
          (let distance = calculateDistance E (lat prev) (lng prev) (lat newLocation) (lng newLocation);
               timeDiff = num_div E (Num (of_int (now - time prev))) (Num 1000)
           in num_mul E (num_div E distance timeDiff) literal_3_6))"

text \<open>
  The whole callback of the later \<open>LocationTracker\<close>, for one position
  \<open>(latitude, longitude)\<close>. \<open>Date.now()\<close> is read twice: \<open>now1\<close> for
  \<open>timeDiff\<close>, \<open>now2\<close> for the stored \<open>lastPosition\<close>. The effect lists
  \<open>lastPosition\<close> among its dependencies, so the next call of the callback sees
  the state stored by this one. The result is the new state, the speed handed to
  \<open>onSpeedUpdate\<close> (before \<open>toFixed(1)\<close>) and the calls of \<open>onProximityAlert\<close>.
\<close>

definition onPosition ::
  "engine \<Rightarrow> point list \<Rightarrow> jsnum \<Rightarrow> tracker_state \<Rightarrow> jsnum \<Rightarrow> jsnum \<Rightarrow> int \<Rightarrow> int
     \<Rightarrow> tracker_state \<times> jsnum \<times> alert_info list"
where
  "onPosition E points speedLimit st latitude longitude now1 now2 =
     (let newLocation = \<lparr>lat = latitude, lng = longitude\<rparr>;
          userSpeed = estimateSpeed E (lastPosition st) newLocation now1;
          st' = \<lparr>userLocation = Some newLocation,
                 lastPosition = Some \<lparr>lat = lat newLocation, lng = lng newLocation, time = now2\<rparr>\<rparr>
      in (st', userSpeed, checkProximityAndSpeed E points speedLimit latitude longitude userSpeed))"




section \<open>Properties of GeoMath under exact arithmetic\<close>

text \<open>
  The engine of exact arithmetic computes with the exact operations and the
  mathematical functions themselves.
\<close>

lemma fl_exact [simp]: "fl exact v = v"
  by (cases v) (simp_all add: exact_def)

lemma num_ops_exact [simp]:
  "num_add exact x y = js_add x y"
  "num_sub exact x y = js_sub x y"
  "num_mul exact x y = js_mul x y"
  "num_div exact x y = js_div x y"
  by (simp_all add: num_add_def num_sub_def num_mul_def num_div_def)

lemma exact_fields [simp]:
  "rnd exact x = Num x"
  "math_pow2 exact x = Num (x\<^sup>2)"
  "math_sin exact x = Num (sin x)"
  "math_cos exact x = Num (cos x)"
  "math_sqrt exact x = Num (sqrt x)"
  "math_atan2 exact y x = Num (atan2 y x)"
  by (simp_all add: exact_def)

lemma keeps_sign_exact: "keeps_sign exact"
  by (auto simp: keeps_sign_def js_le_def)

lemma js_sub_Num [simp]: "js_sub (Num x) (Num y) = Num (x - y)"
  by (simp add: js_sub_def)

lemma PI_value_bounds: "0 < PI_value" "PI_value < 18 / 5"
  by (simp_all add: PI_value_def)

lemma PI_value_pos [simp]: "0 < PI_value" "0 \<le> PI_value" "PI_value \<noteq> 0"
  using PI_value_bounds(1) by simp_all

text \<open>
  With that engine and finite coordinates the argument of the square roots lies
  in \<open>[0, 1]\<close>, so neither square root is NaN and the distance is the number
  \<open>great_circle\<close>, which is not negative and is 0 from a coordinate to itself.
  This is a fact about exact arithmetic only: with an engine that rounds, the sum
  \<open>a\<close> can exceed 1 for two nearly antipodal coordinates, and then
  \<open>Math.sqrt(1 - a)\<close> and the distance are NaN.
\<close>

lemma sin_half_sq: "(sin ((x::real) / 2))\<^sup>2 = (1 - cos x) / 2"
  using cos_double_sin [of "x / 2"] by simp

lemma hav_arg_bounds:
  fixes p q s :: real
  assumes "0 \<le> s" "s \<le> 1"
  shows "0 \<le> (sin ((q - p) / 2))\<^sup>2 + cos p * cos q * s"
    and "(sin ((q - p) / 2))\<^sup>2 + cos p * cos q * s \<le> 1"
proof -
  let ?a = "(sin ((q - p) / 2))\<^sup>2 + cos p * cos q * s"
  have eq: "?a = (1 - s) * ((1 - cos (q - p)) / 2) + s * ((1 + cos (q + p)) / 2)"
    unfolding sin_half_sq cos_diff cos_add by (simp add: field_simps)
  have a0: "0 \<le> (1 - cos (q - p)) / 2"
    using cos_le_one [of "q - p"] by argo
  have b0: "(1 - cos (q - p)) / 2 \<le> 1"
    using cos_ge_minus_one [of "q - p"] by argo
  have a1: "0 \<le> (1 + cos (q + p)) / 2"
    using cos_ge_minus_one [of "q + p"] by argo
  have b1: "(1 + cos (q + p)) / 2 \<le> 1"
    using cos_le_one [of "q + p"] by argo
  show "0 \<le> ?a" unfolding eq using assms a0 a1 by simp
  have "(1 - s) * ((1 - cos (q - p)) / 2) \<le> (1 - s) * 1"
    using assms b0 by (intro mult_left_mono) simp_all
  moreover have "s * ((1 + cos (q + p)) / 2) \<le> s * 1"
    using assms b1 by (intro mult_left_mono) simp_all
  ultimately show "?a \<le> 1" unfolding eq by simp
qed

lemma atan2_nonneg: "0 \<le> y \<Longrightarrow> 0 \<le> x \<Longrightarrow> 0 \<le> atan2 y x"
  by (simp add: atan2_def)

lemma haversine_bounds: "0 \<le> haversine lat1 lon1 lat2 lon2" "haversine lat1 lon1 lat2 lon2 \<le> 1"
proof -
  have s: "0 \<le> (sin ((lon2 - lon1) * PI_value / 180 / 2))\<^sup>2"
    "(sin ((lon2 - lon1) * PI_value / 180 / 2))\<^sup>2 \<le> 1"
    by (simp_all add: abs_square_le_1)
  have d: "(lat2 - lat1) * PI_value / 180 / 2 = (lat2 * PI_value / 180 - lat1 * PI_value / 180) / 2"
    by (simp add: field_simps)
  show "0 \<le> haversine lat1 lon1 lat2 lon2" "haversine lat1 lon1 lat2 lon2 \<le> 1"
    unfolding haversine_def d using hav_arg_bounds [OF s] by simp_all
qed

lemma calculateDistance_Num:
  "calculateDistance exact (Num lat1) (Num lon1) (Num lat2) (Num lon2) =
     Num (great_circle lat1 lon1 lat2 lon2)"
proof -
  let ?h = "haversine lat1 lon1 lat2 lon2"
  have "calculateDistance exact (Num lat1) (Num lon1) (Num lat2) (Num lon2) =
        js_mul (Num 6371000)
          (js_mul (Num 2)
            (Math_atan2 exact (Math_sqrt exact (Num ?h)) (Math_sqrt exact (js_sub (Num 1) (Num ?h)))))"
    by (simp add: calculateDistance_def Let_def Math_PI_def haversine_def)
  also have "Math_sqrt exact (Num ?h) = Num (sqrt ?h)"
    using haversine_bounds(1) [of lat1 lon1 lat2 lon2] by simp
  also have "Math_sqrt exact (js_sub (Num 1) (Num ?h)) = Num (sqrt (1 - ?h))"
    using haversine_bounds(2) [of lat1 lon1 lat2 lon2] by simp
  finally show ?thesis by (simp add: great_circle_def)
qed

lemma calculateDistance_v1_eq:
  "calculateDistance_v1 exact (Num lat1) (Num lon1) (Num lat2) (Num lon2) =
   calculateDistance exact (Num lat1) (Num lon1) (Num lat2) (Num lon2)"
  by (simp add: calculateDistance_def calculateDistance_v1_def Let_def Math_PI_def
      power2_eq_square mult.assoc)

lemma haversine_same: "haversine lat1 lon1 lat1 lon1 = 0"
  by (simp add: haversine_def)

lemma great_circle_nonneg: "0 \<le> great_circle lat1 lon1 lat2 lon2"
  using haversine_bounds [of lat1 lon1 lat2 lon2]
  by (simp add: great_circle_def atan2_nonneg)

lemma great_circle_same: "great_circle lat1 lon1 lat1 lon1 = 0"
  by (simp add: great_circle_def haversine_same atan2_def)

lemma calculateDistance_same: "calculateDistance exact (Num a) (Num l) (Num a) (Num l) = Num 0"
  by (simp add: calculateDistance_Num great_circle_same)

text \<open>
  Along a meridian the exact distance is the arc \<open>R * \<Delta>\<close>, with
  \<open>\<Delta>\<close> the difference of the latitudes times \<open>Math.PI / 180\<close>.
\<close>

lemma atan2_sin_cos:
  assumes "0 \<le> x" "x < pi / 2"
  shows "atan2 (sqrt ((sin x)\<^sup>2)) (sqrt (1 - (sin x)\<^sup>2)) = x"
proof -
  have s: "0 \<le> sin x" using assms by (intro sin_ge_zero) simp_all
  have c: "0 < cos x" using assms by (intro cos_gt_zero_pi) simp_all
  have "1 - (sin x)\<^sup>2 = (cos x)\<^sup>2" by (simp add: cos_squared_eq)
  then have "atan2 (sqrt ((sin x)\<^sup>2)) (sqrt (1 - (sin x)\<^sup>2)) = atan2 (sin x) (cos x)"
    using s c by simp
  also have "\<dots> = arctan (tan x)" using c by (simp add: atan2_def tan_def)
  also have "\<dots> = x" using assms by (intro arctan_tan) simp_all
  finally show ?thesis .
qed

lemma calculateDistance_meridian:
  assumes "a \<le> b" "b - a < 100"
  shows "calculateDistance exact (Num a) (Num l) (Num b) (Num l) =
           Num (6371000 * (2 * ((b - a) * PI_value / 180 / 2)))"
proof -
  let ?x = "(b - a) * PI_value / 180 / 2"
  have h: "haversine a l b l = (sin ?x)\<^sup>2" by (simp add: haversine_def)
  have "0 \<le> (b - a) * PI_value"
    using assms by (intro mult_nonneg_nonneg) simp_all
  then have x0: "0 \<le> ?x" by simp
  have "(b - a) * PI_value \<le> 100 * PI_value"
    using assms by (intro mult_right_mono) simp_all
  also have "\<dots> < 360" using PI_value_bounds(2) by simp
  finally have "?x < 1" by simp
  moreover have "1 \<le> pi / 2" using pi_ge_two by simp
  ultimately have "?x < pi / 2" by linarith
  with x0 show ?thesis
    unfolding calculateDistance_Num great_circle_def h by (simp only: atan2_sin_cos)
qed

section \<open>Properties of the ProximityEngine\<close>

subsection \<open>Order facts for the comparisons of the loop\<close>

lemma js_le_lt_Infinity: "js_le e (Num r) \<Longrightarrow> js_lt e Infinity"
  by (cases e) (simp_all add: js_le_def)

lemma js_lt_le_trans: "js_lt e m \<Longrightarrow> js_le m x \<Longrightarrow> js_lt e x"
  by (cases e; cases m; cases x) (auto simp: js_le_def)

lemma js_not_lt_le: "js_le e (Num r) \<Longrightarrow> js_le m (Num r) \<Longrightarrow> \<not> js_lt e m \<Longrightarrow> js_le m e"
  by (cases e; cases m) (auto simp: js_le_def)

lemma js_le_refl: "js_le e (Num r) \<Longrightarrow> js_le e e"
  by (simp add: js_le_def)

lemma js_lt_imp_le: "js_lt e x \<Longrightarrow> js_le e x"
  by (cases e; cases x) (simp_all add: js_le_def)

lemma Math_round_le:
  assumes "js_le d (Num (of_int k))"
  shows "js_le (Math_round d) (Num (of_int k))"
proof (cases d)
  case (Num x)
  with assms have "x \<le> of_int k" by (auto simp: js_le_def)
  then have "\<lfloor>x + 1 / 2\<rfloor> \<le> k" by linarith
  then show ?thesis using Num by (auto simp: js_le_def)
qed (use assms in \<open>simp_all add: js_le_def\<close>)

subsection \<open>The loop of the later variant\<close>

lemma nearest_loop_append:
  "nearest_loop E userLat userLng (xs @ ys) acc =
   nearest_loop E userLat userLng ys (nearest_loop E userLat userLng xs acc)"
proof (induction xs arbitrary: acc)
  case Nil
  show ?case by simp
next
  case (Cons p xs)
  obtain np m where acc: "acc = (np, m)" by (cases acc)
  show ?case unfolding acc by (simp add: Let_def Cons.IH)
qed

lemma nearest_inv_step:
  assumes inv: "nearest_inv E userLat userLng xs acc"
  shows "nearest_inv E userLat userLng (xs @ [p]) (nearest_loop E userLat userLng [p] acc)"
proof -
  obtain np m where acc: "acc = (np, m)" by (cases acc)
  let ?d = "distance_to E userLat userLng"
  let ?e = "?d p"
  show ?thesis
  proof (cases "js_le ?e (Num 10) \<and> js_lt ?e m")
    case True
    then have res: "nearest_loop E userLat userLng [p] acc = (Some (with_distance p ?e), ?e)"
      by (simp add: acc Let_def distance_to_def with_distance_def)
    have below: "js_lt ?e (?d (xs ! j))" if "j < length xs" "js_le (?d (xs ! j)) (Num 10)" for j
    proof -
      from inv consider
        (none) "\<forall>q\<in>set xs. \<not> js_le (?d q) (Num 10)"
        | (some) i where "i < length xs" "m = ?d (xs ! i)"
            "\<forall>j<length xs. js_le (?d (xs ! j)) (Num 10) \<longrightarrow> js_le (?d (xs ! i)) (?d (xs ! j))"
        unfolding nearest_inv_def acc by auto
      then show ?thesis
      proof cases
        case none
        with that show ?thesis using nth_mem [of j xs] by blast
      next
        case some
        with that have "js_le m (?d (xs ! j))" by simp
        with True show ?thesis by (blast intro: js_lt_le_trans)
      qed
    qed
    have "length xs < length (xs @ [p])" by simp
    moreover have "fst (nearest_loop E userLat userLng [p] acc) =
        Some (with_distance ((xs @ [p]) ! length xs) (?d ((xs @ [p]) ! length xs)))"
      by (simp add: res)
    moreover have "snd (nearest_loop E userLat userLng [p] acc) = ?d ((xs @ [p]) ! length xs)"
      by (simp add: res)
    moreover have "js_le (?d ((xs @ [p]) ! length xs)) (Num 10)"
      using True by simp
    moreover have "\<forall>j<length (xs @ [p]). js_le (?d ((xs @ [p]) ! j)) (Num 10) \<longrightarrow>
        js_le (?d ((xs @ [p]) ! length xs)) (?d ((xs @ [p]) ! j))"
      using below True by (auto simp: nth_append less_Suc_eq intro: js_lt_imp_le js_le_refl)
    moreover have "\<forall>j<length xs. js_le (?d ((xs @ [p]) ! j)) (Num 10) \<longrightarrow>
        js_lt (?d ((xs @ [p]) ! length xs)) (?d ((xs @ [p]) ! j))"
      using below by (simp add: nth_append)
    ultimately show ?thesis
      unfolding nearest_inv_def by blast
  next
    case False
    then have res: "nearest_loop E userLat userLng [p] acc = acc"
      by (auto simp: acc Let_def distance_to_def)
    from inv show ?thesis
      unfolding nearest_inv_def
    proof (elim disjE conjE exE)
      assume a: "fst acc = None" "snd acc = Infinity"
        "\<forall>q\<in>set xs. \<not> js_le (?d q) (Num 10)"
      have "\<not> js_le ?e (Num 10)"
        using False a(2) js_le_lt_Infinity [of ?e 10] by (auto simp: acc)
      with a show "(fst (nearest_loop E userLat userLng [p] acc) = None \<and>
          snd (nearest_loop E userLat userLng [p] acc) = Infinity \<and>
          (\<forall>q\<in>set (xs @ [p]). \<not> js_le (?d q) (Num 10))) \<or>
        (\<exists>i<length (xs @ [p]).
          fst (nearest_loop E userLat userLng [p] acc) =
            Some (with_distance ((xs @ [p]) ! i) (?d ((xs @ [p]) ! i))) \<and>
          snd (nearest_loop E userLat userLng [p] acc) = ?d ((xs @ [p]) ! i) \<and>
          js_le (?d ((xs @ [p]) ! i)) (Num 10) \<and>
          (\<forall>j<length (xs @ [p]). js_le (?d ((xs @ [p]) ! j)) (Num 10) \<longrightarrow>
             js_le (?d ((xs @ [p]) ! i)) (?d ((xs @ [p]) ! j))) \<and>
          (\<forall>j<i. js_le (?d ((xs @ [p]) ! j)) (Num 10) \<longrightarrow>
             js_lt (?d ((xs @ [p]) ! i)) (?d ((xs @ [p]) ! j))))"
        by (simp add: res)
    next
      fix i
      assume a: "i < length xs"
        "fst acc = Some (with_distance (xs ! i) (?d (xs ! i)))"
        "snd acc = ?d (xs ! i)"
        "js_le (?d (xs ! i)) (Num 10)"
        "\<forall>j<length xs. js_le (?d (xs ! j)) (Num 10) \<longrightarrow> js_le (?d (xs ! i)) (?d (xs ! j))"
        "\<forall>j<i. js_le (?d (xs ! j)) (Num 10) \<longrightarrow> js_lt (?d (xs ! i)) (?d (xs ! j))"
      have m: "m = ?d (xs ! i)" using a(3) by (simp add: acc)
      have last: "js_le (?d (xs ! i)) ?e" if "js_le ?e (Num 10)"
        using that False a(4) js_not_lt_le [of ?e 10 m] by (simp add: m)
      have "i < length (xs @ [p])" using a(1) by simp
      moreover have "fst (nearest_loop E userLat userLng [p] acc) =
            Some (with_distance ((xs @ [p]) ! i) (?d ((xs @ [p]) ! i)))"
        using a(1,2) by (simp add: res nth_append)
      moreover have "snd (nearest_loop E userLat userLng [p] acc) = ?d ((xs @ [p]) ! i)"
        using a(1,3) by (simp add: res nth_append)
      moreover have "js_le (?d ((xs @ [p]) ! i)) (Num 10)"
        using a(1,4) by (simp add: nth_append)
      moreover have "\<forall>j<length (xs @ [p]). js_le (?d ((xs @ [p]) ! j)) (Num 10) \<longrightarrow>
             js_le (?d ((xs @ [p]) ! i)) (?d ((xs @ [p]) ! j))"
        using a(1,5) last by (auto simp: nth_append less_Suc_eq)
      moreover have "\<forall>j<i. js_le (?d ((xs @ [p]) ! j)) (Num 10) \<longrightarrow>
             js_lt (?d ((xs @ [p]) ! i)) (?d ((xs @ [p]) ! j))"
        using a(1,6) by (simp add: nth_append)
      ultimately show "(fst (nearest_loop E userLat userLng [p] acc) = None \<and>
          snd (nearest_loop E userLat userLng [p] acc) = Infinity \<and>
          (\<forall>q\<in>set (xs @ [p]). \<not> js_le (?d q) (Num 10))) \<or>
        (\<exists>i<length (xs @ [p]).
          fst (nearest_loop E userLat userLng [p] acc) =
            Some (with_distance ((xs @ [p]) ! i) (?d ((xs @ [p]) ! i))) \<and>
          snd (nearest_loop E userLat userLng [p] acc) = ?d ((xs @ [p]) ! i) \<and>
          js_le (?d ((xs @ [p]) ! i)) (Num 10) \<and>
          (\<forall>j<length (xs @ [p]). js_le (?d ((xs @ [p]) ! j)) (Num 10) \<longrightarrow>
             js_le (?d ((xs @ [p]) ! i)) (?d ((xs @ [p]) ! j))) \<and>
          (\<forall>j<i. js_le (?d ((xs @ [p]) ! j)) (Num 10) \<longrightarrow>
             js_lt (?d ((xs @ [p]) ! i)) (?d ((xs @ [p]) ! j))))"
        by blast
    qed
  qed
qed

lemma nearest_inv_loop:
  "nearest_inv E userLat userLng xs (nearest_loop E userLat userLng xs (None, Infinity))"
proof (induction xs rule: rev_induct)
  case Nil
  show ?case by (simp add: nearest_inv_def)
next
  case (snoc p xs)
  then show ?case
    by (simp only: nearest_loop_append nearest_inv_step)
qed

lemma nearest_loop_selected:
  assumes "\<exists>p\<in>set points. js_le (distance_to E userLat userLng p) (Num 10)"
  shows "\<exists>i<length points.
           fst (nearest_loop E userLat userLng points (None, Infinity)) =
             Some (with_distance (points ! i) (distance_to E userLat userLng (points ! i))) \<and>
           js_le (distance_to E userLat userLng (points ! i)) (Num 10)"
  using nearest_inv_loop [of E userLat userLng points] assms
  unfolding nearest_inv_def by blast

lemma nearest_loop_Some:
  assumes "fst (nearest_loop E userLat userLng points (None, Infinity)) = Some np"
  shows "\<exists>p\<in>set points. np = with_distance p (distance_to E userLat userLng p) \<and>
           js_le (distance_to E userLat userLng p) (Num 10)"
  using nearest_inv_loop [of E userLat userLng points] assms
  unfolding nearest_inv_def by (auto intro: nth_mem)

text \<open>
  Claim C1, for the later variant. For every engine, every fix and every
  sequence of points, when at least one point lies within 10 m,
  \<open>checkProximityAndSpeed\<close> selects an in-range point of minimum distance to
  the fix, and among equidistant in-range points the one that comes first in the
  sequence: every in-range point before the selected one is strictly farther.
\<close>

theorem checkProximityAndSpeed_selects_nearest:
  assumes "\<exists>p\<in>set points. js_le (distance_to E userLat userLng p) (Num 10)"
  shows "\<exists>i<length points.
           fst (nearest_loop E userLat userLng points (None, Infinity)) =
             Some (with_distance (points ! i) (distance_to E userLat userLng (points ! i))) \<and>
           js_le (distance_to E userLat userLng (points ! i)) (Num 10) \<and>
           (\<forall>j<length points. js_le (distance_to E userLat userLng (points ! j)) (Num 10) \<longrightarrow>
              js_le (distance_to E userLat userLng (points ! i)) (distance_to E userLat userLng (points ! j))) \<and>
           (\<forall>j<i. js_le (distance_to E userLat userLng (points ! j)) (Num 10) \<longrightarrow>
              js_lt (distance_to E userLat userLng (points ! i)) (distance_to E userLat userLng (points ! j)))"
  using nearest_inv_loop [of E userLat userLng points] assms
  unfolding nearest_inv_def by blast

text \<open>
  Three points north of the fix, at about 7.8 m, 5.6 m and 5.6 m: the second is
  selected.
\<close>

lemma in_range_5m: "js_le (calculateDistance exact (Num 0) (Num 0) (Num 0.00005) (Num 0)) (Num 10)"
  using calculateDistance_meridian [of 0 "0.00005" 0] by (simp add: js_le_def PI_value_def)

theorem checkProximityAndSpeed_selects_nearest_witness:
  "(\<exists>p\<in>set [\<lparr>lat = Num 0.00007, lng = Num 0, name = ''A'', type = ''CCTV''\<rparr>,
              \<lparr>lat = Num 0.00005, lng = Num 0, name = ''B'', type = ''CCTV''\<rparr>,
              \<lparr>lat = Num 0.00005, lng = Num 0, name = ''C'', type = ''Speed Breaker''\<rparr>].
      js_le (distance_to exact (Num 0) (Num 0) p) (Num 10)) \<and>
   (\<exists>i<length [\<lparr>lat = Num 0.00007, lng = Num 0, name = ''A'', type = ''CCTV''\<rparr>,
              \<lparr>lat = Num 0.00005, lng = Num 0, name = ''B'', type = ''CCTV''\<rparr>,
              \<lparr>lat = Num 0.00005, lng = Num 0, name = ''C'', type = ''Speed Breaker''\<rparr>].
      fst (nearest_loop exact (Num 0) (Num 0)
             [\<lparr>lat = Num 0.00007, lng = Num 0, name = ''A'', type = ''CCTV''\<rparr>,
              \<lparr>lat = Num 0.00005, lng = Num 0, name = ''B'', type = ''CCTV''\<rparr>,
              \<lparr>lat = Num 0.00005, lng = Num 0, name = ''C'', type = ''Speed Breaker''\<rparr>]
             (None, Infinity)) =
        Some \<lparr>lat = Num 0.00005, lng = Num 0, name = ''B'', type = ''CCTV'',
               distance = calculateDistance exact (Num 0) (Num 0) (Num 0.00005) (Num 0)\<rparr> \<and> i = 1)"
proof -
  let ?A = "\<lparr>lat = Num 0.00007, lng = Num 0, name = ''A'', type = ''CCTV''\<rparr>"
  let ?B = "\<lparr>lat = Num 0.00005, lng = Num 0, name = ''B'', type = ''CCTV''\<rparr>"
  let ?C = "\<lparr>lat = Num 0.00005, lng = Num 0, name = ''C'', type = ''Speed Breaker''\<rparr>"
  let ?d = "distance_to exact (Num 0) (Num 0)"
  have dA: "?d ?A = Num (6371000 * (2 * ((0.00007 - 0) * PI_value / 180 / 2)))"
    unfolding distance_to_def using calculateDistance_meridian [of 0 "0.00007" 0] by simp
  have dB: "?d ?B = Num (6371000 * (2 * ((0.00005 - 0) * PI_value / 180 / 2)))"
    unfolding distance_to_def using calculateDistance_meridian [of 0 "0.00005" 0] by simp
  have dC: "?d ?C = ?d ?B"
    by (simp add: distance_to_def)
  have BA: "js_lt (?d ?B) (?d ?A)" unfolding dA dB by simp
  have inB: "js_le (?d ?B) (Num 10)"
    using in_range_5m by (simp add: distance_to_def)
  have h: "\<exists>p\<in>set [?A, ?B, ?C]. js_le (?d p) (Num 10)"
    using inB by simp
  from checkProximityAndSpeed_selects_nearest [OF h] obtain i where i: "i < length [?A, ?B, ?C]"
    "fst (nearest_loop exact (Num 0) (Num 0) [?A, ?B, ?C] (None, Infinity)) =
       Some (with_distance ([?A, ?B, ?C] ! i) (?d ([?A, ?B, ?C] ! i)))"
    "\<forall>j<length [?A, ?B, ?C]. js_le (?d ([?A, ?B, ?C] ! j)) (Num 10) \<longrightarrow>
        js_le (?d ([?A, ?B, ?C] ! i)) (?d ([?A, ?B, ?C] ! j))"
    "\<forall>j<i. js_le (?d ([?A, ?B, ?C] ! j)) (Num 10) \<longrightarrow>
        js_lt (?d ([?A, ?B, ?C] ! i)) (?d ([?A, ?B, ?C] ! j))"
    by blast
  have "i \<noteq> 0"
  proof
    assume "i = 0"
    with i(3) inB have "js_le (?d ?A) (?d ?B)" by (auto dest: spec [of _ 1])
    then show False unfolding dA dB by (simp add: js_le_def)
  qed
  moreover have "i \<noteq> 2"
  proof
    assume "i = 2"
    with i(4) inB have "js_lt (?d ?C) (?d ?B)" by (auto dest: spec [of _ 1])
    then show False unfolding dC dB by simp
  qed
  ultimately have "i = 1" using i(1) by (simp add: less_Suc_eq numeral_3_eq_3)
  with i(2) have "fst (nearest_loop exact (Num 0) (Num 0) [?A, ?B, ?C] (None, Infinity)) =
        Some \<lparr>lat = Num 0.00005, lng = Num 0, name = ''B'', type = ''CCTV'',
               distance = calculateDistance exact (Num 0) (Num 0) (Num 0.00005) (Num 0)\<rparr>"
    by (simp add: with_distance_def distance_to_def)
  with \<open>i = 1\<close> i(1) h show ?thesis by blast
qed

text \<open>
  The earlier variant does not select by distance. With two points within 100 m,
  the second strictly nearer than the first, \<open>checkProximity\<close> alerts for the
  first.
\<close>

theorem checkProximity_not_nearest_counterexample:
  "checkProximity exact
     [\<lparr>lat = Num 0.0006, lng = Num 0, name = ''Library CCTV'', type = ''CCTV''\<rparr>,
      \<lparr>lat = Num 0.0002, lng = Num 0, name = ''Main Gate Speed Breaker'', type = ''Speed Breaker''\<rparr>]
     (Num 0) (Num 0) =
     [\<lparr>alert_type = ''CCTV'', alert_name = Plain ''Library CCTV'',
       alert_distance = Math_round (calculateDistance_v1 exact (Num 0) (Num 0) (Num 0.0006) (Num 0))\<rparr>] \<and>
   js_le (calculateDistance_v1 exact (Num 0) (Num 0) (Num 0.0002) (Num 0)) (Num 100) \<and>
   js_lt (calculateDistance_v1 exact (Num 0) (Num 0) (Num 0.0002) (Num 0))
         (calculateDistance_v1 exact (Num 0) (Num 0) (Num 0.0006) (Num 0))"
proof -
  have d1: "calculateDistance_v1 exact (Num 0) (Num 0) (Num 0.0006) (Num 0) =
      Num (6371000 * (2 * ((0.0006 - 0) * PI_value / 180 / 2)))"
    unfolding calculateDistance_v1_eq using calculateDistance_meridian [of 0 "0.0006" 0] by simp
  have d2: "calculateDistance_v1 exact (Num 0) (Num 0) (Num 0.0002) (Num 0) =
      Num (6371000 * (2 * ((0.0002 - 0) * PI_value / 180 / 2)))"
    unfolding calculateDistance_v1_eq using calculateDistance_meridian [of 0 "0.0002" 0] by simp
  have in1: "js_le (calculateDistance_v1 exact (Num 0) (Num 0) (Num 0.0006) (Num 0)) (Num 100)"
    unfolding d1 by (simp add: js_le_def PI_value_def)
  have in2: "js_le (calculateDistance_v1 exact (Num 0) (Num 0) (Num 0.0002) (Num 0)) (Num 100)"
    unfolding d2 by (simp add: js_le_def PI_value_def)
  have nearer: "js_lt (calculateDistance_v1 exact (Num 0) (Num 0) (Num 0.0002) (Num 0))
         (calculateDistance_v1 exact (Num 0) (Num 0) (Num 0.0006) (Num 0))"
    unfolding d1 d2 by simp
  have "checkProximity exact
     [\<lparr>lat = Num 0.0006, lng = Num 0, name = ''Library CCTV'', type = ''CCTV''\<rparr>,
      \<lparr>lat = Num 0.0002, lng = Num 0, name = ''Main Gate Speed Breaker'', type = ''Speed Breaker''\<rparr>]
     (Num 0) (Num 0) =
     [\<lparr>alert_type = ''CCTV'', alert_name = Plain ''Library CCTV'',
       alert_distance = Math_round (calculateDistance_v1 exact (Num 0) (Num 0) (Num 0.0006) (Num 0))\<rparr>]"
    using in1 by (simp add: Let_def)
  with in2 nearer show ?thesis by blast
qed

text \<open>
  Claim C2. For every fix with a point within 10 m, exactly one alert is emitted
  for the selected point: a speed alert when \<open>userSpeed > speedLimit\<close>, and
  otherwise a proximity alert with the point's type and name; either carries the
  distance rounded to the nearest integer. The two are never emitted together.
\<close>

theorem checkProximityAndSpeed_one_alert:
  assumes "\<exists>p\<in>set points. js_le (distance_to E userLat userLng p) (Num 10)"
  shows "\<exists>i<length points.
           fst (nearest_loop E userLat userLng points (None, Infinity)) =
             Some (with_distance (points ! i) (distance_to E userLat userLng (points ! i))) \<and>
           checkProximityAndSpeed E points speedLimit userLat userLng userSpeed =
             [if js_gt userSpeed speedLimit
              then \<lparr>alert_type = ''Speed Alert'',
                    alert_name = SlowDown userSpeed speedLimit (name (points ! i)),
                    alert_distance = Math_round (distance_to E userLat userLng (points ! i))\<rparr>
              else \<lparr>alert_type = type (points ! i),
                    alert_name = Plain (name (points ! i)),
                    alert_distance = Math_round (distance_to E userLat userLng (points ! i))\<rparr>]"
proof -
  from nearest_loop_selected [OF assms] obtain i where i: "i < length points"
    "fst (nearest_loop E userLat userLng points (None, Infinity)) =
       Some (with_distance (points ! i) (distance_to E userLat userLng (points ! i)))"
    by blast
  show ?thesis
    by (rule exI [of _ i]) (simp add: i checkProximityAndSpeed_def with_distance_def)
qed

text \<open>
  At the coordinate of a point, at 12 km/h with a limit of 5 km/h: one speed
  alert, distance 0.
\<close>

theorem checkProximityAndSpeed_one_alert_witness:
  "(\<exists>p\<in>set [\<lparr>lat = Num 30.8600959, lng = Num 75.8610409, name = ''Lipton Camera-2'', type = ''CCTV''\<rparr>].
      js_le (distance_to exact (Num 30.8600959) (Num 75.8610409) p) (Num 10)) \<and>
   checkProximityAndSpeed exact
     [\<lparr>lat = Num 30.8600959, lng = Num 75.8610409, name = ''Lipton Camera-2'', type = ''CCTV''\<rparr>]
     (Num 5) (Num 30.8600959) (Num 75.8610409) (Num 12) =
     [\<lparr>alert_type = ''Speed Alert'',
       alert_name = SlowDown (Num 12) (Num 5) ''Lipton Camera-2'',
       alert_distance = Num 0\<rparr>]"
proof -
  let ?P = "\<lparr>lat = Num 30.8600959, lng = Num 75.8610409, name = ''Lipton Camera-2'', type = ''CCTV''\<rparr>"
  have d: "distance_to exact (Num 30.8600959) (Num 75.8610409) ?P = Num 0"
    by (simp add: distance_to_def calculateDistance_same)
  have "js_le (distance_to exact (Num 30.8600959) (Num 75.8610409) ?P) (Num 10)"
    unfolding d by (simp add: js_le_def)
  then have h: "\<exists>p\<in>set [?P]. js_le (distance_to exact (Num 30.8600959) (Num 75.8610409) p) (Num 10)"
    by simp
  from checkProximityAndSpeed_one_alert [OF h, of "Num 5" "Num 12"] obtain i where i: "i < length [?P]"
    and eq: "checkProximityAndSpeed exact [?P] (Num 5) (Num 30.8600959) (Num 75.8610409) (Num 12) =
       [if js_gt (Num 12) (Num 5)
        then \<lparr>alert_type = ''Speed Alert'',
              alert_name = SlowDown (Num 12) (Num 5) (name ([?P] ! i)),
              alert_distance = Math_round (distance_to exact (Num 30.8600959) (Num 75.8610409) ([?P] ! i))\<rparr>
        else \<lparr>alert_type = type ([?P] ! i),
              alert_name = Plain (name ([?P] ! i)),
              alert_distance = Math_round (distance_to exact (Num 30.8600959) (Num 75.8610409) ([?P] ! i))\<rparr>]"
    by blast
  have i0: "[?P] ! i = ?P" using i by simp
  have "checkProximityAndSpeed exact [?P] (Num 5) (Num 30.8600959) (Num 75.8610409) (Num 12) =
       [\<lparr>alert_type = ''Speed Alert'',
         alert_name = SlowDown (Num 12) (Num 5) ''Lipton Camera-2'',
         alert_distance = Num 0\<rparr>]"
    unfolding eq i0 d by (simp add: js_gt_def)
  with h show ?thesis by blast
qed

text \<open>
  Claim C6. With an empty sequence of points no alert is emitted, whatever the
  fix, by either variant and by the callback as a whole.
\<close>

theorem no_points_no_alert:
  "checkProximityAndSpeed E [] speedLimit userLat userLng userSpeed = [] \<and>
   checkProximity E [] userLat userLng = [] \<and>
   snd (snd (onPosition E [] speedLimit st latitude longitude now1 now2)) = []"
  by (simp add: checkProximityAndSpeed_def onPosition_def Let_def)

subsection \<open>The earlier variant\<close>

text \<open>
  Claim C9. In the earlier variant the alert is for the first point of the
  sequence whose distance to the fix is at most 100 m, and the scan stops there:
  whatever follows that point, nearer or not, is not looked at.
\<close>

theorem checkProximity_first_in_range:
  assumes "\<forall>q\<in>set xs. \<not> js_le (calculateDistance_v1 E userLat userLng (lat q) (lng q)) (Num 100)"
    and "js_le (calculateDistance_v1 E userLat userLng (lat p) (lng p)) (Num 100)"
  shows "checkProximity E (xs @ p # ys) userLat userLng =
           [\<lparr>alert_type = type p, alert_name = Plain (name p),
             alert_distance = Math_round (calculateDistance_v1 E userLat userLng (lat p) (lng p))\<rparr>]"
  using assms by (induction xs) (simp_all add: Let_def)

text \<open>
  A point at about 1.1 km, then one at about 56 m, then one at the fix itself:
  the alert is for the second.
\<close>

theorem checkProximity_first_in_range_witness:
  "\<not> js_le (calculateDistance_v1 exact (Num 0) (Num 0) (Num 0.01) (Num 0)) (Num 100) \<and>
   js_le (calculateDistance_v1 exact (Num 0) (Num 0) (Num 0.0005) (Num 0)) (Num 100) \<and>
   js_lt (calculateDistance_v1 exact (Num 0) (Num 0) (Num 0) (Num 0))
         (calculateDistance_v1 exact (Num 0) (Num 0) (Num 0.0005) (Num 0)) \<and>
   checkProximity exact
     ([\<lparr>lat = Num 0.01, lng = Num 0, name = ''Far'', type = ''CCTV''\<rparr>] @
      \<lparr>lat = Num 0.0005, lng = Num 0, name = ''Gate'', type = ''Speed Breaker''\<rparr> #
      [\<lparr>lat = Num 0, lng = Num 0, name = ''Here'', type = ''CCTV''\<rparr>])
     (Num 0) (Num 0) =
     [\<lparr>alert_type = ''Speed Breaker'', alert_name = Plain ''Gate'',
       alert_distance = Math_round (calculateDistance_v1 exact (Num 0) (Num 0) (Num 0.0005) (Num 0))\<rparr>]"
proof -
  let ?F = "\<lparr>lat = Num 0.01, lng = Num 0, name = ''Far'', type = ''CCTV''\<rparr>"
  let ?G = "\<lparr>lat = Num 0.0005, lng = Num 0, name = ''Gate'', type = ''Speed Breaker''\<rparr>"
  have dF: "calculateDistance_v1 exact (Num 0) (Num 0) (Num 0.01) (Num 0) =
      Num (6371000 * (2 * ((0.01 - 0) * PI_value / 180 / 2)))"
    unfolding calculateDistance_v1_eq using calculateDistance_meridian [of 0 "0.01" 0] by simp
  have dG: "calculateDistance_v1 exact (Num 0) (Num 0) (Num 0.0005) (Num 0) =
      Num (6371000 * (2 * ((0.0005 - 0) * PI_value / 180 / 2)))"
    unfolding calculateDistance_v1_eq using calculateDistance_meridian [of 0 "0.0005" 0] by simp
  have dH: "calculateDistance_v1 exact (Num 0) (Num 0) (Num 0) (Num 0) = Num 0"
    unfolding calculateDistance_v1_eq by (rule calculateDistance_same)
  have far: "\<not> js_le (calculateDistance_v1 exact (Num 0) (Num 0) (Num 0.01) (Num 0)) (Num 100)"
    unfolding dF by (simp add: js_le_def PI_value_def)
  then have h1: "\<forall>q\<in>set [?F]. \<not> js_le (calculateDistance_v1 exact (Num 0) (Num 0) (lat q) (lng q)) (Num 100)"
    by simp
  have "js_le (calculateDistance_v1 exact (Num 0) (Num 0) (Num 0.0005) (Num 0)) (Num 100)"
    unfolding dG by (simp add: js_le_def PI_value_def)
  then have h2: "js_le (calculateDistance_v1 exact (Num 0) (Num 0) (lat ?G) (lng ?G)) (Num 100)"
    by simp
  have closer: "js_lt (calculateDistance_v1 exact (Num 0) (Num 0) (Num 0) (Num 0))
         (calculateDistance_v1 exact (Num 0) (Num 0) (Num 0.0005) (Num 0))"
    unfolding dG dH by simp
  from checkProximity_first_in_range [OF h1 h2, of "[\<lparr>lat = Num 0, lng = Num 0, name = ''Here'', type = ''CCTV''\<rparr>]"]
    far h2 closer
  show ?thesis by simp
qed

lemma checkProximity_mem:
  assumes "al \<in> set (checkProximity E points userLat userLng)"
  shows "\<exists>p\<in>set points.
           js_le (calculateDistance_v1 E userLat userLng (lat p) (lng p)) (Num 100) \<and>
           al = \<lparr>alert_type = type p, alert_name = Plain (name p),
                 alert_distance = Math_round (calculateDistance_v1 E userLat userLng (lat p) (lng p))\<rparr>"
  using assms by (induction points) (auto simp: Let_def split: if_splits)

text \<open>
  Claim C10. Every alert that is emitted carries the distance from the fix to
  the alerted point rounded to the nearest integer, and that rounded value is at
  most the radius of the check: 10 in the later variant, 100 in the earlier one.
\<close>

theorem alert_distance_rounded_within_radius:
  "(al \<in> set (checkProximityAndSpeed E points speedLimit userLat userLng userSpeed) \<longrightarrow>
      (\<exists>p\<in>set points.
         alert_distance al = Math_round (calculateDistance E userLat userLng (lat p) (lng p)) \<and>
         (alert_name al = Plain (name p) \<or> alert_name al = SlowDown userSpeed speedLimit (name p)) \<and>
         js_le (alert_distance al) (Num 10))) \<and>
   (al \<in> set (checkProximity E points userLat userLng) \<longrightarrow>
      (\<exists>p\<in>set points.
         alert_distance al = Math_round (calculateDistance_v1 E userLat userLng (lat p) (lng p)) \<and>
         alert_name al = Plain (name p) \<and>
         js_le (alert_distance al) (Num 100)))"
proof (intro conjI impI)
  assume al: "al \<in> set (checkProximityAndSpeed E points speedLimit userLat userLng userSpeed)"
  have "fst (nearest_loop E userLat userLng points (None, Infinity)) \<noteq> None"
  proof
    assume "fst (nearest_loop E userLat userLng points (None, Infinity)) = None"
    then have "checkProximityAndSpeed E points speedLimit userLat userLng userSpeed = []"
      by (simp add: checkProximityAndSpeed_def)
    with al show False by simp
  qed
  then obtain np where np: "fst (nearest_loop E userLat userLng points (None, Infinity)) = Some np"
    by blast
  from nearest_loop_Some [OF np] obtain p where p: "p \<in> set points"
    "np = with_distance p (distance_to E userLat userLng p)"
    "js_le (distance_to E userLat userLng p) (Num 10)"
    by blast
  have "js_le (Math_round (distance_to E userLat userLng p)) (Num (of_int 10))"
    using p(3) by (intro Math_round_le) simp
  then have r: "js_le (Math_round (distance_to E userLat userLng p)) (Num 10)" by simp
  have "alert_distance al = Math_round (distance_to E userLat userLng p) \<and>
        (alert_name al = Plain (name p) \<or> alert_name al = SlowDown userSpeed speedLimit (name p))"
    using al by (auto simp: checkProximityAndSpeed_def np p(2) with_distance_def split: if_splits)
  with r p(1) show "\<exists>p\<in>set points.
         alert_distance al = Math_round (calculateDistance E userLat userLng (lat p) (lng p)) \<and>
         (alert_name al = Plain (name p) \<or> alert_name al = SlowDown userSpeed speedLimit (name p)) \<and>
         js_le (alert_distance al) (Num 10)"
    unfolding distance_to_def by auto
next
  assume "al \<in> set (checkProximity E points userLat userLng)"
  from checkProximity_mem [OF this] obtain p where p: "p \<in> set points"
    "js_le (calculateDistance_v1 E userLat userLng (lat p) (lng p)) (Num 100)"
    "al = \<lparr>alert_type = type p, alert_name = Plain (name p),
           alert_distance = Math_round (calculateDistance_v1 E userLat userLng (lat p) (lng p))\<rparr>"
    by blast
  have "js_le (Math_round (calculateDistance_v1 E userLat userLng (lat p) (lng p))) (Num (of_int 100))"
    using p(2) by (intro Math_round_le) simp
  then show "\<exists>p\<in>set points.
         alert_distance al = Math_round (calculateDistance_v1 E userLat userLng (lat p) (lng p)) \<and>
         alert_name al = Plain (name p) \<and>
         js_le (alert_distance al) (Num 100)"
    using p(1,3) by auto
qed

text \<open>
  The proximity alert at the coordinate of a point, which both variants emit.
\<close>

theorem alert_distance_rounded_within_radius_witness:
  "\<lparr>alert_type = ''CCTV'', alert_name = Plain ''Lipton Camera-2'', alert_distance = Num 0\<rparr>
     \<in> set (checkProximityAndSpeed exact
         [\<lparr>lat = Num 30.8600959, lng = Num 75.8610409, name = ''Lipton Camera-2'', type = ''CCTV''\<rparr>]
         (Num 5) (Num 30.8600959) (Num 75.8610409) (Num 3)) \<and>
   \<lparr>alert_type = ''CCTV'', alert_name = Plain ''Lipton Camera-2'', alert_distance = Num 0\<rparr>
     \<in> set (checkProximity exact
         [\<lparr>lat = Num 30.8600959, lng = Num 75.8610409, name = ''Lipton Camera-2'', type = ''CCTV''\<rparr>]
         (Num 30.8600959) (Num 75.8610409)) \<and>
   js_le (alert_distance
       \<lparr>alert_type = ''CCTV'', alert_name = Plain ''Lipton Camera-2'', alert_distance = Num 0\<rparr>) (Num 10)"
proof -
  let ?P = "\<lparr>lat = Num 30.8600959, lng = Num 75.8610409, name = ''Lipton Camera-2'', type = ''CCTV''\<rparr>"
  let ?al = "\<lparr>alert_type = ''CCTV'', alert_name = Plain ''Lipton Camera-2'', alert_distance = Num 0\<rparr>"
  have a: "?al \<in> set (checkProximityAndSpeed exact [?P] (Num 5) (Num 30.8600959) (Num 75.8610409) (Num 3))"
    by (simp add: checkProximityAndSpeed_def Let_def calculateDistance_same js_le_def js_gt_def)
  have b: "?al \<in> set (checkProximity exact [?P] (Num 30.8600959) (Num 75.8610409))"
    by (simp add: Let_def calculateDistance_v1_eq calculateDistance_same js_le_def)
  from alert_distance_rounded_within_radius [of ?al exact "[?P]" "Num 5" "Num 30.8600959" "Num 75.8610409" "Num 3"] a b
  show ?thesis by blast
qed

section \<open>Properties of the SpeedEstimator\<close>

text \<open>
  Claim C4. On the first fix of a session, with no previous fix stored, the
  speed is exactly 0 (nothing is divided) and the fix is stored as the previous
  fix.
\<close>

theorem first_fix_speed_zero:
  "estimateSpeed E None newLocation now1 = Num 0 \<and>
   onPosition E points speedLimit \<lparr>userLocation = u, lastPosition = None\<rparr> latitude longitude now1 now2 =
     (\<lparr>userLocation = Some \<lparr>lat = latitude, lng = longitude\<rparr>,
       lastPosition = Some \<lparr>lat = latitude, lng = longitude, time = now2\<rparr>\<rparr>,
      Num 0,
      checkProximityAndSpeed E points speedLimit latitude longitude (Num 0))"
  by (simp add: estimateSpeed_def onPosition_def Let_def)

text \<open>
  Claim C8. On every call the stored previous fix becomes the incoming fix,
  whichever branch produced the speed.
\<close>

theorem onPosition_stores_fix:
  "lastPosition (fst (onPosition E points speedLimit st latitude longitude now1 now2)) =
     Some \<lparr>lat = latitude, lng = longitude, time = now2\<rparr>"
  by (simp add: onPosition_def Let_def)

subsection \<open>A zero or negative elapsed time\<close>

text \<open>
  With a zero elapsed time \<open>timeDiff\<close> is 0 and the quotient
  \<open>distance / timeDiff\<close> is NaN or an infinity, which the multiplication by
  3.6 leaves as it is.
\<close>

lemma fl_not_Num: "\<forall>r. v \<noteq> Num r \<Longrightarrow> fl E v = v"
  by (cases v) simp_all

lemma js_div_zero:
  "js_div v (Num 0) =
     (case v of
        Num d \<Rightarrow> if d = 0 then NaN else if 0 < d then Infinity else NegInfinity
      | Infinity \<Rightarrow> Infinity
      | NegInfinity \<Rightarrow> NegInfinity
      | NaN \<Rightarrow> NaN)"
  by (cases v) (auto simp: signed_inf_def)

lemma js_div_zero_not_Num: "js_div v (Num 0) \<noteq> Num r"
  by (cases v) (auto simp: signed_inf_def)

lemma js_mul_literal_not_Num: "\<forall>r. v \<noteq> Num r \<Longrightarrow> js_mul v literal_3_6 = v"
  by (cases v) (simp_all add: literal_3_6_def signed_inf_def)

lemma estimateSpeed_zero_elapsed:
  "estimateSpeed E (Some prev) newLocation (time prev) =
     js_div (calculateDistance E (lat prev) (lng prev) (lat newLocation) (lng newLocation)) (Num 0)"
proof -
  let ?q = "js_div (calculateDistance E (lat prev) (lng prev) (lat newLocation) (lng newLocation)) (Num 0)"
  have q: "\<forall>r. ?q \<noteq> Num r" by (simp add: js_div_zero_not_Num)
  have "estimateSpeed E (Some prev) newLocation (time prev) = fl E (js_mul (fl E ?q) literal_3_6)"
    by (simp add: estimateSpeed_def Let_def num_div_def num_mul_def)
  also have "\<dots> = ?q"
    by (simp only: fl_not_Num [OF q] js_mul_literal_not_Num [OF q])
  finally show ?thesis .
qed

text \<open>
  With an engine that keeps the sign, the sign of the speed is the sign of
  \<open>distance / timeDiff\<close>.
\<close>

lemma fl_nonpos: "keeps_sign E \<Longrightarrow> x \<le> 0 \<Longrightarrow> js_le (fl E (Num x)) (Num 0)"
  by (cases "x = 0") (auto simp: keeps_sign_def js_le_def)


lemma fl_negative:
  assumes "keeps_sign E" "x \<le> - (1 / 1000)"
  shows "js_lt (fl E (Num x)) (Num 0)"
proof -
  have "js_le (rnd E x) (Num 0)" "rnd E x \<noteq> Num 0"
    using assms by (auto simp: keeps_sign_def)
  moreover have "x \<noteq> 0" using assms by auto
  ultimately show ?thesis by (auto simp: js_le_def)
qed


lemma num_div_nonneg_negative:
  assumes "keeps_sign E" "0 \<le> d" "js_lt t (Num 0)"
  shows "js_le (num_div E (Num d) t) (Num 0)"
proof (cases t)
  case (Num y)
  with assms(3) have "y < 0" by simp
  with assms(2) have "d / y \<le> 0" by (simp add: divide_nonneg_neg)
  with assms(1) have "js_le (fl E (Num (d / y))) (Num 0)" by (rule fl_nonpos)
  then show ?thesis using Num \<open>y < 0\<close> by (simp add: num_div_def del: fl.simps)
qed (use assms in \<open>simp_all add: num_div_def js_le_def\<close>)


lemma num_mul_literal_nonpos:
  assumes "keeps_sign E" "js_le q (Num 0)"
  shows "js_le (num_mul E q literal_3_6) (Num 0)"
proof (cases q)
  case (Num z)
  with assms(2) have "z \<le> 0" by (auto simp: js_le_def)
  then have "z * (8106479329266893 / 2251799813685248) \<le> 0"
    by (simp add: mult_le_0_iff)
  with assms(1) have "js_le (fl E (Num (z * (8106479329266893 / 2251799813685248)))) (Num 0)"
    by (rule fl_nonpos)
  then show ?thesis using Num by (simp add: num_mul_def literal_3_6_def del: fl.simps)
qed (use assms in \<open>simp_all add: num_mul_def literal_3_6_def signed_inf_def js_le_def\<close>)


lemma estimateSpeed_negative_elapsed:
  assumes "keeps_sign E" "now1 < time prev"
    and "calculateDistance E (lat prev) (lng prev) (lat newLocation) (lng newLocation) = Num d"
    and "0 \<le> d"
  shows "js_le (estimateSpeed E (Some prev) newLocation now1) (Num 0)"
proof -
  have "real_of_int (now1 - time prev) \<le> - 1" using assms(2) by simp
  then have "real_of_int (now1 - time prev) / 1000 \<le> - (1 / 1000)" by simp
  with assms(1) have "js_lt (fl E (Num (real_of_int (now1 - time prev) / 1000))) (Num 0)"
    by (rule fl_negative)
  then have "js_lt (num_div E (Num (real_of_int (now1 - time prev))) (Num 1000)) (Num 0)"
    by (simp add: num_div_def del: fl.simps)
  then have "js_le (num_div E (Num d)
      (num_div E (Num (real_of_int (now1 - time prev))) (Num 1000))) (Num 0)"
    using assms(1,4) by (intro num_div_nonneg_negative)
  then show ?thesis
    using assms(1,3) by (simp add: estimateSpeed_def Let_def num_mul_literal_nonpos)
qed


text \<open>
  Claim C3, as the code has it. The elapsed time is not tested before the
  division. When it is zero the speed is never 0 nor any other finite number: it
  is NaN if the computed distance is 0 or NaN, and Infinity if the distance is
  positive. When it is negative and the computed distance is a number that is
  not negative, the speed is less than or equal to 0, for every engine that keeps
  the sign. In every case the previous fix is still updated to the new fix.
\<close>

theorem estimateSpeed_elapsed_nonpositive:
  assumes "now1 \<le> time prev"
  shows "(now1 = time prev \<longrightarrow>
            estimateSpeed E (Some prev) \<lparr>lat = latitude, lng = longitude\<rparr> now1 =
              (case calculateDistance E (lat prev) (lng prev) latitude longitude of
                 Num d \<Rightarrow> if d = 0 then NaN else if 0 < d then Infinity else NegInfinity
               | Infinity \<Rightarrow> Infinity
               | NegInfinity \<Rightarrow> NegInfinity
               | NaN \<Rightarrow> NaN)) \<and>
         (now1 < time prev \<longrightarrow> keeps_sign E \<longrightarrow>
            (\<forall>d. calculateDistance E (lat prev) (lng prev) latitude longitude = Num d \<longrightarrow> 0 \<le> d \<longrightarrow>
               js_le (estimateSpeed E (Some prev) \<lparr>lat = latitude, lng = longitude\<rparr> now1) (Num 0))) \<and>
         lastPosition (fst (onPosition E points speedLimit
               \<lparr>userLocation = u, lastPosition = Some prev\<rparr> latitude longitude now1 now2)) =
           Some \<lparr>lat = latitude, lng = longitude, time = now2\<rparr>"
proof (intro conjI impI allI)
  assume "now1 = time prev"
  then show "estimateSpeed E (Some prev) \<lparr>lat = latitude, lng = longitude\<rparr> now1 =
              (case calculateDistance E (lat prev) (lng prev) latitude longitude of
                 Num d \<Rightarrow> if d = 0 then NaN else if 0 < d then Infinity else NegInfinity
               | Infinity \<Rightarrow> Infinity
               | NegInfinity \<Rightarrow> NegInfinity
               | NaN \<Rightarrow> NaN)"
    using estimateSpeed_zero_elapsed [of E prev "\<lparr>lat = latitude, lng = longitude\<rparr>"]
    by (simp add: js_div_zero)
next
  fix d
  assume "now1 < time prev" "keeps_sign E"
    "calculateDistance E (lat prev) (lng prev) latitude longitude = Num d" "0 \<le> d"
  then show "js_le (estimateSpeed E (Some prev) \<lparr>lat = latitude, lng = longitude\<rparr> now1) (Num 0)"
    using estimateSpeed_negative_elapsed [of E now1 prev "\<lparr>lat = latitude, lng = longitude\<rparr>" d]
    by simp
next
  show "lastPosition (fst (onPosition E points speedLimit
               \<lparr>userLocation = u, lastPosition = Some prev\<rparr> latitude longitude now1 now2)) =
           Some \<lparr>lat = latitude, lng = longitude, time = now2\<rparr>"
    by (simp add: onPosition_def Let_def)
qed

text \<open>
  Two fixes at the same coordinate in the same millisecond; and a fix about
  11 m to the north of one stored at a later time.
\<close>

theorem estimateSpeed_elapsed_nonpositive_witness:
  "estimateSpeed exact (Some \<lparr>lat = Num 30.8600959, lng = Num 75.8610409, time = 1000\<rparr>)
       \<lparr>lat = Num 30.8600959, lng = Num 75.8610409\<rparr> 1000 = NaN \<and>
   lastPosition (fst (onPosition exact [] (Num 5)
       \<lparr>userLocation = None,
         lastPosition = Some \<lparr>lat = Num 30.8600959, lng = Num 75.8610409, time = 1000\<rparr>\<rparr>
       (Num 30.8600959) (Num 75.8610409) 1000 1001)) =
     Some \<lparr>lat = Num 30.8600959, lng = Num 75.8610409, time = 1001\<rparr> \<and>
   keeps_sign exact \<and>
   js_le (estimateSpeed exact (Some \<lparr>lat = Num 0, lng = Num 0, time = 1000\<rparr>)
       \<lparr>lat = Num 0.0001, lng = Num 0\<rparr> 0) (Num 0)"
proof -
  let ?P = "\<lparr>lat = Num 30.8600959, lng = Num 75.8610409, time = 1000\<rparr>"
  let ?Q = "\<lparr>lat = Num 0, lng = Num 0, time = 1000\<rparr>"
  have h1: "(1000::int) \<le> time ?P" by simp
  have d1: "calculateDistance exact (lat ?P) (lng ?P) (Num 30.8600959) (Num 75.8610409) = Num 0"
    by (simp add: calculateDistance_same)
  from estimateSpeed_elapsed_nonpositive
    [OF h1, of exact "Num 30.8600959" "Num 75.8610409" "[]" "Num 5" None 1001]
  have a: "estimateSpeed exact (Some ?P) \<lparr>lat = Num 30.8600959, lng = Num 75.8610409\<rparr> 1000 = NaN"
    and b: "lastPosition (fst (onPosition exact [] (Num 5)
       \<lparr>userLocation = None, lastPosition = Some ?P\<rparr>
       (Num 30.8600959) (Num 75.8610409) 1000 1001)) =
     Some \<lparr>lat = Num 30.8600959, lng = Num 75.8610409, time = 1001\<rparr>"
    unfolding d1 by simp_all
  have h2: "(0::int) \<le> time ?Q" by simp
  have d2: "calculateDistance exact (lat ?Q) (lng ?Q) (Num 0.0001) (Num 0) =
      Num (great_circle 0 0 0.0001 0)"
    by (simp add: calculateDistance_Num)
  from estimateSpeed_elapsed_nonpositive
    [OF h2, of exact "Num 0.0001" "Num 0" "[]" "Num 5" None 1]
  have c: "js_le (estimateSpeed exact (Some ?Q) \<lparr>lat = Num 0.0001, lng = Num 0\<rparr> 0) (Num 0)"
    using keeps_sign_exact d2 great_circle_nonneg [of 0 0 "0.0001" 0] by simp
  from a b c keeps_sign_exact show ?thesis by blast
qed

text \<open>
  The speed is not 0 there: the second of two identical fixes in the same
  millisecond gets NaN.
\<close>

theorem estimateSpeed_zero_elapsed_counterexample:
  "estimateSpeed exact (Some \<lparr>lat = Num 30.8600959, lng = Num 75.8610409, time = 1000\<rparr>)
       \<lparr>lat = Num 30.8600959, lng = Num 75.8610409\<rparr> 1000 = NaN \<and> NaN \<noteq> Num 0"
  by (simp add: estimateSpeed_def Let_def calculateDistance_same signed_inf_def)

subsection \<open>A sequence of fixes\<close>





end
